theory Spec2Isabelle
  imports
    Main
    "HOL-Library.Sublist"
    "HOL-Library.Char_ord"
    "HOL-Library.List_Lexorder"
    "HOL-Library.AList"
begin

text \<open>
  \<open>mark\<close> is a command-line tool that keeps bookmarks of directories as symbolic links
  in a marks directory: \<open>mark [name [path]]\<close> creates one, \<open>mark -l\<close> lists them,
  \<open>mark -d name\<close> deletes one and \<open>mark -j name\<close> prints the directory of one. This
  theory embeds the Go functions \<open>parseFlags\<close>, \<open>main\<close>, \<open>expandPath\<close>, \<open>createBookmark\<close>,
  \<open>listBookmarks\<close>, \<open>deleteBookmark\<close> and \<open>jumpBookmark\<close> with the library functions they
  call, models the unified shell integration of the specification, and proves the
  claims C1 to C10 about them. The definitions come first, the properties after them.
\<close>

section \<open>Command line: \<open>parseFlags\<close> and the dispatch of \<open>main\<close>\<close>

text \<open>
  Go strings are byte sequences; they are modelled as \<open>string\<close> (a list of 8-bit
  characters). \<open>strings.HasPrefix(s, p)\<close> is \<open>prefix p s\<close> and
  \<open>strings.Contains(s, t)\<close> is \<open>sublist t s\<close>.
\<close>

record ParsedFlags =
  List :: bool
  Delete :: string
  Jump :: string
  Config :: bool
  Autocomplete :: bool
  Alias :: bool
  Help :: bool
  Version :: bool

definition noFlags :: ParsedFlags where
  "noFlags = \<lparr>List = False, Delete = [], Jump = [], Config = False,
     Autocomplete = False, Alias = False, Help = False, Version = False\<rparr>"

text \<open>
  Every \<open>os.Exit(1)\<close> of \<open>parseFlags\<close> is a value of \<open>flag_error\<close>, one per message.
\<close>

datatype flag_error =
    DeleteNeedsName
  | DeleteNotLast
  | JumpNeedsName
  | JumpNotLast
  | UnknownFlag

text \<open>
  The inner loop \<open>for j, char := range flagChars\<close>. The first argument is the flag
  record, the second the characters from position \<open>j\<close> on, the third the arguments
  after \<open>args[i]\<close>. The test \<open>j == len(flagChars)-1\<close> holds exactly when no
  character follows. The result carries the number of following arguments consumed
  (the \<open>i++\<close> of the source). A byte of a multi-byte rune is none of the five letters
  and reaches the \<open>default\<close> branch, as the rune itself does.
\<close>

fun parseShort :: "ParsedFlags \<Rightarrow> string \<Rightarrow> string list \<Rightarrow> flag_error + (ParsedFlags \<times> nat)" where
  "parseShort flags [] rest = Inr (flags, 0)"
| "parseShort flags (c # cs) rest =
     (if c = CHR ''v'' then parseShort (flags\<lparr>Version := True\<rparr>) cs rest
      else if c = CHR ''h'' then parseShort (flags\<lparr>Help := True\<rparr>) cs rest
      else if c = CHR ''l'' then parseShort (flags\<lparr>List := True\<rparr>) cs rest
      else if c = CHR ''d'' then
        (if cs = [] then
           (case rest of
              nxt # _ \<Rightarrow> Inr (flags\<lparr>Delete := nxt\<rparr>, 1)
            | [] \<Rightarrow> Inl DeleteNeedsName)
         else Inl DeleteNotLast)
      else if c = CHR ''j'' then
        (if cs = [] then
           (case rest of
              nxt # _ \<Rightarrow> Inr (flags\<lparr>Jump := nxt\<rparr>, 1)
            | [] \<Rightarrow> Inl JumpNeedsName)
         else Inl JumpNotLast)
      else Inl UnknownFlag)"

text \<open>
  The outer loop \<open>for i := 0; i < len(args); i++\<close>: the flags so far, the positional
  arguments so far (\<open>remainingArgs\<close>), and the arguments from \<open>args[i]\<close> on.
\<close>

fun parseLoop :: "ParsedFlags \<Rightarrow> string list \<Rightarrow> string list \<Rightarrow> flag_error + (ParsedFlags \<times> string list)" where
  "parseLoop flags remainingArgs [] = Inr (flags, remainingArgs)"
| "parseLoop flags remainingArgs (arg # rest) =
     (if arg = ''--help'' then parseLoop (flags\<lparr>Help := True\<rparr>) remainingArgs rest
      else if arg = ''--version'' then parseLoop (flags\<lparr>Version := True\<rparr>) remainingArgs rest
      else if arg = ''--config'' then parseLoop (flags\<lparr>Config := True\<rparr>) remainingArgs rest
      else if arg = ''--autocomplete'' then parseLoop (flags\<lparr>Autocomplete := True\<rparr>) remainingArgs rest
      else if arg = ''--alias'' then parseLoop (flags\<lparr>Alias := True\<rparr>) remainingArgs rest
      else if prefix ''--'' arg then parseLoop flags (remainingArgs @ [arg]) rest
      else if prefix ''-'' arg \<and> length arg > 1 then
        (case parseShort flags (tl arg) rest of
           Inl e \<Rightarrow> Inl e
         | Inr (flags', k) \<Rightarrow> parseLoop flags' remainingArgs (drop k rest))
      else parseLoop flags (remainingArgs @ [arg]) rest)"

definition parseFlags :: "string list \<Rightarrow> flag_error + (ParsedFlags \<times> string list)" where
  "parseFlags args = parseLoop noFlags [] args"

text \<open>
  What \<open>main\<close> does with the parsed command line. \<open>firstTimeSetup\<close> is the second
  result of \<open>loadOrCreateConfig\<close> (no configuration file existed and the interactive
  setup has just run).
\<close>

datatype action =
    PrintVersion
  | PrintHelp
  | FirstTimeSetup
  | RunSetup
  | RunAutocompleteSetup
  | RunAliasSetup
  | ListBookmarks
  | DeleteBookmark string
  | JumpBookmark string
  | CreateBookmark string string

definition dispatch :: "bool \<Rightarrow> ParsedFlags \<Rightarrow> string list \<Rightarrow> action" where
  "dispatch firstTimeSetup flags args =
     (if Version flags then PrintVersion
      else if Help flags then PrintHelp
      else if firstTimeSetup then FirstTimeSetup
      else if Config flags then RunSetup
      else if Autocomplete flags then RunAutocompleteSetup
      else if Alias flags then RunAliasSetup
      else if List flags then ListBookmarks
      else if Delete flags \<noteq> [] then DeleteBookmark (Delete flags)
      else if Jump flags \<noteq> [] then JumpBookmark (Jump flags)
      else (case args of
              [] \<Rightarrow> CreateBookmark [] []
            | [a] \<Rightarrow> CreateBookmark a []
            | a # b # _ \<Rightarrow> CreateBookmark a b))"

definition mainAction :: "bool \<Rightarrow> string list \<Rightarrow> flag_error + action" where
  "mainAction firstTimeSetup args =
     (case parseFlags args of
        Inl e \<Rightarrow> Inl e
      | Inr (flags, rest) \<Rightarrow> Inr (dispatch firstTimeSetup flags rest))"

section \<open>Paths: the functions of \<open>path/filepath\<close> the program calls\<close>

text \<open>
  The program runs on Unix, where \<open>os.PathSeparator\<close> is \<open>/\<close>. \<open>splitSlash\<close> cuts a
  path at every separator, \<open>joinSlash\<close> is \<open>strings.Join(elems, "/")\<close>.
\<close>

fun splitSlash :: "string \<Rightarrow> string list" where
  "splitSlash [] = [[]]"
| "splitSlash (c # cs) =
     (if c = CHR ''/'' then [] # splitSlash cs
      else (case splitSlash cs of
              [] \<Rightarrow> [[c]]
            | x # xs \<Rightarrow> (c # x) # xs))"

fun joinSlash :: "string list \<Rightarrow> string" where
  "joinSlash [] = []"
| "joinSlash [c] = c"
| "joinSlash (c # d # cs) = c @ ''/'' @ joinSlash (d # cs)"

definition isAbs :: "string \<Rightarrow> bool" where
  "isAbs p = prefix ''/'' p"

text \<open>
  The path elements that count: empty elements (doubled or trailing separators) and
  \<open>.\<close> are dropped.
\<close>

definition components :: "string \<Rightarrow> string list" where
  "components p = filter (\<lambda>c. c \<noteq> [] \<and> c \<noteq> ''.'') (splitSlash p)"

text \<open>
  One element pushed on the elements kept so far: \<open>..\<close> removes the element before it,
  is dropped at the root of a rooted path, and is kept at the start of a relative one.
\<close>

definition stepUp :: "bool \<Rightarrow> string list \<Rightarrow> string \<Rightarrow> string list" where
  "stepUp rooted st c =
     (if c = ''..'' then
        (if st \<noteq> [] \<and> last st \<noteq> ''..'' then butlast st
         else if rooted then st
         else st @ [c])
      else st @ [c])"

definition normal :: "bool \<Rightarrow> string list \<Rightarrow> string list" where
  "normal rooted cs = foldl (stepUp rooted) [] cs"

text \<open>\<open>filepath.Clean\<close>: the shortest equivalent path, \<open>.\<close> for the empty one.\<close>

definition Clean :: "string \<Rightarrow> string" where
  "Clean p =
     (let out = (if isAbs p then ''/'' else []) @ joinSlash (normal (isAbs p) (components p))
      in if out = [] then ''.'' else out)"

text \<open>
  \<open>filepath.Join\<close>: the elements from the first non-empty one on, joined by separators
  and cleaned; the empty string when every element is empty.
\<close>

definition Join :: "string list \<Rightarrow> string" where
  "Join elem =
     (case dropWhile (\<lambda>e. e = []) elem of
        [] \<Rightarrow> []
      | es \<Rightarrow> Clean (joinSlash es))"

text \<open>
  \<open>filepath.Base\<close>: the last element, after trailing separators are removed; \<open>.\<close> for
  the empty path and \<open>/\<close> for a path of separators only.
\<close>

definition Base :: "string \<Rightarrow> string" where
  "Base p =
     (if p = [] then ''.''
      else (let q = rev (dropWhile (\<lambda>c. c = CHR ''/'') (rev p));
                b = rev (takeWhile (\<lambda>c. c \<noteq> CHR ''/'') (rev q))
            in if b = [] then ''/'' else b))"

text \<open>\<open>filepath.Dir\<close>: all but the last element, cleaned.\<close>

definition Dir :: "string \<Rightarrow> string" where
  "Dir p = Clean (rev (dropWhile (\<lambda>c. c \<noteq> CHR ''/'') (rev p)))"

section \<open>The file system\<close>

text \<open>
  The state the program reads and writes: the entries of the file system, the working
  directory and the home directory. An entry is a regular file, a directory or a
  symbolic link with its text. Entries are kept by their absolute path, as the list of
  its elements; the root is the empty list and is always a directory. The model covers
  symbolic links in the last position of a path, which is where the program creates
  them; a link in the middle of a path is not followed. Permissions are not modelled,
  so no call fails for lack of them.
\<close>

datatype node = FileNode | DirNode | LinkNode string


record sys =
  files :: "(string list \<times> node) list"
  cwd :: string
  home :: string


definition nodeAt :: "(string list \<times> node) list \<Rightarrow> string list \<Rightarrow> node option" where
  "nodeAt fs k = (if k = [] then Some DirNode else map_of fs k)"














section \<open>Bookmarks\<close>



















section \<open>Shell integration\<close>

text \<open>
  The program text at hand sets up completion and aliases in the earlier layout
  (\<open>SetupBashCompletion\<close> writes \<open>~/.mark.bash\<close> and appends to \<open>.bashrc\<close>; the aliases go
  into the startup file itself). The unified layout of the specification
  (\<open>getRCFilePath\<close>, \<open>generateBashRC\<close>, \<open>generateZshRC\<close>, \<open>generateFishRC\<close>,
  \<open>writeShellRC\<close>, \<open>getEnabledFeatures\<close>, \<open>isSourceLinePresent\<close>, \<open>ensureSourceLine\<close>)
  is called by the unit tests (\<open>TestGetRCFilePath\<close>, \<open>TestGenerateBashRC\<close>,
  \<open>TestGetEnabledFeatures\<close>, \<open>TestWriteShellRC\<close>, \<open>TestIsSourceLinePresent\<close>,
  \<open>TestEnsureSourceLine\<close>) and by \<open>scripts/setup_integration_test.sh\<close>, but its
  functions are not part of the program text. They are modelled here from the
  specification, with the strings the tests fix.

  A text file is the list of its lines. The files of the shell integration are a map
  from paths to contents; a path that is not in the map is a missing file.
\<close>

type_synonym contents = "string \<rightharpoonup> string list"


text \<open>
  Modelled from the spec: \<open>rcFilePath(shell)\<close> (\<open>getRCFilePath\<close> in the tests), which is
  missing from the program text: "fixed mapping: a dotfile path for bash, a different
  dotfile path for zsh, a conf.d fragment path for fish; unsupported shell returns
  empty", with the file names of section 6 and of \<open>TestGetRCFilePath\<close>.
\<close>

definition getRCFilePath :: "string \<Rightarrow> string \<Rightarrow> string" where
  "getRCFilePath homeDir shell =
     (if shell = ''bash'' then Join [homeDir, ''.mark_bash_rc'']
      else if shell = ''zsh'' then Join [homeDir, ''.mark_zsh_rc'']
      else if shell = ''fish'' then Join [homeDir, ''.config/fish/conf.d/mark.fish'']
      else [])"






text \<open>
  Modelled from the spec: the parsing step of \<open>getEnabledFeatures(shell)\<close> (missing):
  "must parse a previously generated file's feature line and return the same two
  booleans used to create it". The feature line is the first line that starts with
  \<open># Features:\<close>; a feature is enabled when its name occurs in that line.
\<close>

definition parseFeatures :: "string list \<Rightarrow> bool \<times> bool" where
  "parseFeatures ls =
     (case find (prefix ''# Features:'') ls of
        None \<Rightarrow> (False, False)
      | Some l \<Rightarrow> (sublist ''aliases'' l, sublist ''completions'' l))"

text \<open>
  Modelled from the spec: \<open>getEnabledFeatures(shell)\<close> (missing), on the files: the
  generated file of the shell is read and its feature line parsed; "a missing file or
  missing header yields (false, false)".
\<close>

definition getEnabledFeatures :: "contents \<Rightarrow> string \<Rightarrow> string \<Rightarrow> bool \<times> bool" where
  "getEnabledFeatures st homeDir shell =
     (case st (getRCFilePath homeDir shell) of
        None \<Rightarrow> (False, False)
      | Some ls \<Rightarrow> parseFeatures ls)"



text \<open>
  Modelled from the spec: the startup file of a shell (missing): \<open>.bashrc\<close> and
  \<open>.zshrc\<close> in the home directory; fish has none to edit.
\<close>

definition startupFile :: "string \<Rightarrow> string \<Rightarrow> string" where
  "startupFile homeDir shell =
     (if shell = ''bash'' then Join [homeDir, ''.bashrc'']
      else if shell = ''zsh'' then Join [homeDir, ''.zshrc'']
      else [])"

text \<open>
  Modelled from the spec: \<open>isSourceLinePresent(file)\<close> (missing): "scans the target file
  line-by-line for evidence that it sources the mark RC file (either the literal
  filename or a recognizable mark-completion registration marker); tolerant of a
  missing file (returns false)". The specification does not say what a registration
  marker looks like: the test \<open>registration\<close> on a line is a parameter.
\<close>

definition isSourceLinePresent :: "(string \<Rightarrow> bool) \<Rightarrow> contents \<Rightarrow> string \<Rightarrow> bool" where
  "isSourceLinePresent registration st file =
     (case st file of
        None \<Rightarrow> False
      | Some ls \<Rightarrow>
          list_ex (\<lambda>l. sublist ''.mark_bash_rc'' l \<or> sublist ''.mark_zsh_rc'' l
                         \<or> registration l) ls)"




section \<open>Definitions for the statements\<close>

text \<open>
  The letters \<open>v\<close>, \<open>h\<close> and \<open>l\<close> of a group of short flags take no argument.
  \<open>simpleFlags flags pre\<close> is the flag record after the loop has passed a run \<open>pre\<close> of
  such letters.
\<close>

definition simpleLetters :: "char set" where
  "simpleLetters = {CHR ''v'', CHR ''h'', CHR ''l''}"

definition setSimple :: "ParsedFlags \<Rightarrow> char \<Rightarrow> ParsedFlags" where
  "setSimple flags c =
     (if c = CHR ''v'' then flags\<lparr>Version := True\<rparr>
      else if c = CHR ''h'' then flags\<lparr>Help := True\<rparr>
      else flags\<lparr>List := True\<rparr>)"

definition simpleFlags :: "ParsedFlags \<Rightarrow> string \<Rightarrow> ParsedFlags" where
  "simpleFlags flags pre = foldl setSimple flags pre"






section \<open>The flag parser: claims C9 and C10\<close>

lemma parseShort_simple:
  "set pre \<subseteq> simpleLetters \<Longrightarrow>
     parseShort flags (pre @ cs) rest = parseShort (simpleFlags flags pre) cs rest"
proof (induction pre arbitrary: flags)
  case Nil
  then show ?case by (simp add: simpleFlags_def)
next
  case (Cons a pre)
  then have "a \<in> simpleLetters" and "set pre \<subseteq> simpleLetters" by auto
  with Cons.IH show ?case
    by (auto simp: simpleFlags_def simpleLetters_def setSimple_def)
qed

lemma parseShort_not_last:
  "c \<in> set (butlast cs) \<Longrightarrow> c = CHR ''d'' \<or> c = CHR ''j'' \<Longrightarrow>
     \<exists>e. parseShort flags cs rest = Inl e"
proof (induction cs arbitrary: flags)
  case Nil
  then show ?case by simp
next
  case (Cons a cs)
  show ?case
  proof (cases "cs = []")
    case True
    with Cons.prems show ?thesis by simp
  next
    case False
    show ?thesis
    proof (cases "a = c")
      case True
      with False Cons.prems(2) show ?thesis by auto
    next
      case False
      with \<open>cs \<noteq> []\<close> Cons.prems have "c \<in> set (butlast cs)" by simp
      from Cons.IH [OF this Cons.prems(2)] \<open>cs \<noteq> []\<close> show ?thesis by auto
    qed
  qed
qed

lemma parseShort_last_no_arg:
  "cs \<noteq> [] \<Longrightarrow> last cs = CHR ''d'' \<or> last cs = CHR ''j'' \<Longrightarrow>
     \<exists>e. parseShort flags cs [] = Inl e"
proof (induction cs arbitrary: flags)
  case Nil
  then show ?case by simp
next
  case (Cons a cs)
  show ?case
  proof (cases "cs = []")
    case True
    with Cons.prems show ?thesis by auto
  next
    case False
    with Cons.prems have "last cs = CHR ''d'' \<or> last cs = CHR ''j''" by simp
    from Cons.IH [OF False this] False show ?thesis by auto
  qed
qed

lemma parseShort_unknown:
  "\<exists>c \<in> set cs. c \<notin> {CHR ''v'', CHR ''h'', CHR ''l'', CHR ''d'', CHR ''j''} \<Longrightarrow>
     \<exists>e. parseShort flags cs rest = Inl e"
proof (induction cs arbitrary: flags)
  case Nil
  then show ?case by simp
next
  case (Cons a cs)
  show ?case
  proof (cases "a \<notin> {CHR ''v'', CHR ''h'', CHR ''l'', CHR ''d'', CHR ''j''}")
    case True
    then show ?thesis by simp
  next
    case False
    with Cons.prems have ex: "\<exists>c \<in> set cs. c \<notin> {CHR ''v'', CHR ''h'', CHR ''l'', CHR ''d'', CHR ''j''}"
      by auto
    then have "cs \<noteq> []" by auto
    with Cons.IH [OF ex] show ?thesis by auto
  qed
qed

lemma parseLoop_short:
  "cs \<noteq> [] \<Longrightarrow> \<not> prefix ''-'' cs \<Longrightarrow>
     parseLoop flags rem ((CHR ''-'' # cs) # rest) =
       (case parseShort flags cs rest of
          Inl e \<Rightarrow> Inl e
        | Inr (flags', k) \<Rightarrow> parseLoop flags' rem (drop k rest))"
  by (cases cs) auto


text \<open>
  Claim C9. In a group of short flags that the loop reaches, a \<open>d\<close> or \<open>j\<close> before the
  last position ends the program with an error, whatever the other characters are, and
  so does a group ending in \<open>d\<close> or \<open>j\<close> when it is the last argument. After a run of
  \<open>v\<close>, \<open>h\<close>, \<open>l\<close> the error is the one of the letter: "must be the last in a flag
  chain", or "requires a bookmark name". When the letter is last in its group and an
  argument \<open>nxt\<close> follows, \<open>nxt\<close> becomes the bookmark name and the loop goes on with
  the arguments after it and the same positional arguments: \<open>nxt\<close> is neither parsed as
  a flag nor appended to them.
\<close>

theorem parseFlags_delete_jump:
  assumes c: "c = CHR ''d'' \<or> c = CHR ''j''"
  shows
    "(c \<in> set (butlast cs) \<and> \<not> prefix ''-'' cs \<longrightarrow>
        (\<exists>e. parseLoop flags rem ((CHR ''-'' # cs) # rest) = Inl e))
     \<and> (cs \<noteq> [] \<and> last cs = c \<and> \<not> prefix ''-'' cs \<longrightarrow>
        (\<exists>e. parseLoop flags rem [CHR ''-'' # cs] = Inl e))
     \<and> (set pre \<subseteq> simpleLetters \<and> post \<noteq> [] \<longrightarrow>
        parseLoop flags rem ((CHR ''-'' # pre @ c # post) # rest) =
          Inl (if c = CHR ''d'' then DeleteNotLast else JumpNotLast))
     \<and> (set pre \<subseteq> simpleLetters \<longrightarrow>
        parseLoop flags rem [CHR ''-'' # pre @ [c]] =
          Inl (if c = CHR ''d'' then DeleteNeedsName else JumpNeedsName))
     \<and> (set pre \<subseteq> simpleLetters \<longrightarrow>
        parseLoop flags rem ((CHR ''-'' # pre @ [c]) # nxt # rest) =
          parseLoop (if c = CHR ''d'' then (simpleFlags flags pre)\<lparr>Delete := nxt\<rparr>
                     else (simpleFlags flags pre)\<lparr>Jump := nxt\<rparr>) rem rest)"
proof (intro conjI impI)
  assume a: "c \<in> set (butlast cs) \<and> \<not> prefix ''-'' cs"
  then have ne: "cs \<noteq> []" by auto
  from a c obtain e where "parseShort flags cs rest = Inl e"
    using parseShort_not_last by blast
  moreover from a have np: "\<not> prefix ''-'' cs" by simp
  ultimately show "\<exists>e. parseLoop flags rem ((CHR ''-'' # cs) # rest) = Inl e"
    unfolding parseLoop_short [OF ne np] by simp
next
  assume a: "cs \<noteq> [] \<and> last cs = c \<and> \<not> prefix ''-'' cs"
  with c obtain e where "parseShort flags cs [] = Inl e"
    using parseShort_last_no_arg by blast
  moreover from a have ne: "cs \<noteq> []" and np: "\<not> prefix ''-'' cs" by simp_all
  ultimately show "\<exists>e. parseLoop flags rem [CHR ''-'' # cs] = Inl e"
    unfolding parseLoop_short [OF ne np] by simp
next
  assume a: "set pre \<subseteq> simpleLetters \<and> post \<noteq> []"
  have np: "\<not> prefix ''-'' (pre @ c # post)"
    using a c by (cases pre) (auto simp: simpleLetters_def)
  have h: "parseShort flags (pre @ c # post) rest =
          Inl (if c = CHR ''d'' then DeleteNotLast else JumpNotLast)"
    using a c by (auto simp: parseShort_simple)
  show "parseLoop flags rem ((CHR ''-'' # pre @ c # post) # rest) =
          Inl (if c = CHR ''d'' then DeleteNotLast else JumpNotLast)"
    by (subst parseLoop_short [OF _ np]) (simp_all add: h)
next
  assume a: "set pre \<subseteq> simpleLetters"
  have np: "\<not> prefix ''-'' (pre @ [c])"
    using a c by (cases pre) (auto simp: simpleLetters_def)
  have h: "parseShort flags (pre @ [c]) [] =
          Inl (if c = CHR ''d'' then DeleteNeedsName else JumpNeedsName)"
    using a c by (auto simp: parseShort_simple)
  show "parseLoop flags rem [CHR ''-'' # pre @ [c]] =
          Inl (if c = CHR ''d'' then DeleteNeedsName else JumpNeedsName)"
    by (subst parseLoop_short [OF _ np]) (simp_all add: h)
next
  assume a: "set pre \<subseteq> simpleLetters"
  have np: "\<not> prefix ''-'' (pre @ [c])"
    using a c by (cases pre) (auto simp: simpleLetters_def)
  have h: "parseShort flags (pre @ [c]) (nxt # rest) =
          Inr (if c = CHR ''d'' then (simpleFlags flags pre)\<lparr>Delete := nxt\<rparr>
               else (simpleFlags flags pre)\<lparr>Jump := nxt\<rparr>, 1)"
    using a c by (auto simp: parseShort_simple)
  show "parseLoop flags rem ((CHR ''-'' # pre @ [c]) # nxt # rest) =
          parseLoop (if c = CHR ''d'' then (simpleFlags flags pre)\<lparr>Delete := nxt\<rparr>
                     else (simpleFlags flags pre)\<lparr>Jump := nxt\<rparr>) rem rest"
    by (subst parseLoop_short [OF _ np]) (simp_all add: h)
qed

theorem parseFlags_delete_jump_witness:
  "parseFlags [''-dl'', ''x''] = Inl DeleteNotLast
   \<and> parseFlags [''-lj''] = Inl JumpNeedsName
   \<and> parseFlags [''-ld'', ''x'', ''y''] = Inr (noFlags\<lparr>List := True, Delete := ''x''\<rparr>, [''y''])"
proof -
  have c: "CHR ''d'' = CHR ''d'' \<or> CHR ''d'' = CHR ''j''" by simp
  have cj: "CHR ''j'' = CHR ''d'' \<or> CHR ''j'' = CHR ''j''" by simp
  have s0: "set [] \<subseteq> simpleLetters" by simp
  have s1: "set ''l'' \<subseteq> simpleLetters" by (simp add: simpleLetters_def)
  have 1: "parseFlags [''-dl'', ''x''] = Inl DeleteNotLast"
    using parseFlags_delete_jump [OF c, where pre = "[]" and post = "''l''" and flags = noFlags and rem = "[]" and rest = "[''x'']"] s0
    by (simp add: parseFlags_def)
  have 2: "parseFlags [''-lj''] = Inl JumpNeedsName"
    using parseFlags_delete_jump [OF cj, where pre = "''l''" and flags = noFlags and rem = "[]"] s1
    by (simp add: parseFlags_def)
  have 3: "parseFlags [''-ld'', ''x'', ''y''] = Inr (noFlags\<lparr>List := True, Delete := ''x''\<rparr>, [''y''])"
    using parseFlags_delete_jump [OF c, where pre = "''l''" and flags = noFlags and rem = "[]" and nxt = "''x''" and rest = "[''y'']"] s1
    by (simp add: parseFlags_def simpleFlags_def setSimple_def)
  from 1 2 3 show ?thesis by simp
qed

text \<open>
  Claim C10. An argument that starts with \<open>--\<close> and is none of \<open>--help\<close>, \<open>--version\<close>,
  \<open>--config\<close>, \<open>--autocomplete\<close>, \<open>--alias\<close> is appended to the positional arguments;
  given alone (and with a configuration file present) it makes \<open>main\<close> call
  \<open>createBookmark\<close> with it as the bookmark name. A group of short flags with a character
  outside \<open>v h l d j\<close> ends the program with an error; after a run of \<open>v\<close>, \<open>h\<close>,
  \<open>l\<close> it is the "unknown flag" error.
\<close>

theorem parseFlags_unknown_options:
  "(prefix ''--'' arg \<and> arg \<notin> {''--help'', ''--version'', ''--config'', ''--autocomplete'', ''--alias''} \<longrightarrow>
      parseLoop flags rem (arg # rest) = parseLoop flags (rem @ [arg]) rest
      \<and> parseFlags [arg] = Inr (noFlags, [arg])
      \<and> mainAction False [arg] = Inr (CreateBookmark arg []))
   \<and> (\<not> prefix ''-'' cs \<and> (\<exists>c \<in> set cs. c \<notin> {CHR ''v'', CHR ''h'', CHR ''l'', CHR ''d'', CHR ''j''}) \<longrightarrow>
      (\<exists>e. parseLoop flags rem ((CHR ''-'' # cs) # rest) = Inl e))
   \<and> (set pre \<subseteq> simpleLetters \<and> c \<notin> {CHR ''v'', CHR ''h'', CHR ''l'', CHR ''d'', CHR ''j'', CHR ''-''} \<longrightarrow>
      parseLoop flags rem ((CHR ''-'' # pre @ c # post) # rest) = Inl UnknownFlag)"
proof (intro conjI impI)
  assume a: "prefix ''--'' arg \<and> arg \<notin> {''--help'', ''--version'', ''--config'', ''--autocomplete'', ''--alias''}"
  then show 1: "parseLoop flags rem (arg # rest) = parseLoop flags (rem @ [arg]) rest"
    by simp
  from a show 2: "parseFlags [arg] = Inr (noFlags, [arg])"
    by (simp add: parseFlags_def)
  then show "mainAction False [arg] = Inr (CreateBookmark arg [])"
    by (simp add: mainAction_def dispatch_def noFlags_def)
next
  assume a: "\<not> prefix ''-'' cs \<and> (\<exists>c \<in> set cs. c \<notin> {CHR ''v'', CHR ''h'', CHR ''l'', CHR ''d'', CHR ''j''})"
  then have ne: "cs \<noteq> []" by auto
  from a obtain e where "parseShort flags cs rest = Inl e"
    using parseShort_unknown by blast
  moreover from a have np: "\<not> prefix ''-'' cs" by simp
  ultimately show "\<exists>e. parseLoop flags rem ((CHR ''-'' # cs) # rest) = Inl e"
    unfolding parseLoop_short [OF ne np] by simp
next
  assume a: "set pre \<subseteq> simpleLetters \<and> c \<notin> {CHR ''v'', CHR ''h'', CHR ''l'', CHR ''d'', CHR ''j'', CHR ''-''}"
  have np: "\<not> prefix ''-'' (pre @ c # post)"
    using a by (cases pre) (auto simp: simpleLetters_def)
  have h: "parseShort flags (pre @ c # post) rest = Inl UnknownFlag"
    using a by (auto simp: parseShort_simple)
  show "parseLoop flags rem ((CHR ''-'' # pre @ c # post) # rest) = Inl UnknownFlag"
    by (subst parseLoop_short [OF _ np]) (simp_all add: h)
qed

theorem parseFlags_unknown_options_witness:
  "mainAction False [''--foo''] = Inr (CreateBookmark ''--foo'' [])
   \<and> parseFlags [''-x''] = Inl UnknownFlag
   \<and> (\<exists>e. parseFlags [''-dx''] = Inl e)"
proof -
  have a: "prefix ''--'' ''--foo'' \<and> ''--foo'' \<notin> {''--help'', ''--version'', ''--config'', ''--autocomplete'', ''--alias''}"
    by simp
  have b: "set [] \<subseteq> simpleLetters \<and> CHR ''x'' \<notin> {CHR ''v'', CHR ''h'', CHR ''l'', CHR ''d'', CHR ''j'', CHR ''-''}"
    by simp
  have d: "\<not> prefix ''-'' ''dx'' \<and> (\<exists>c \<in> set ''dx''. c \<notin> {CHR ''v'', CHR ''h'', CHR ''l'', CHR ''d'', CHR ''j''})"
    by simp
  from parseFlags_unknown_options [where arg = "''--foo''" and flags = noFlags and rem = "[]" and rest = "[]" and cs = "''dx''" and pre = "[]" and c = "CHR ''x''" and post = "[]"] a b d
  show ?thesis by (simp add: parseFlags_def)
qed

section \<open>Properties of the path functions\<close>

text \<open>
  The elements of a cleaned path are those of the path itself after \<open>normal\<close>, so the
  file-system calls see the same entry through a path and through its cleaned form.
\<close>

lemma splitSlash_nonempty: "splitSlash p \<noteq> []"
  by (induction p) (auto split: list.splits)














lemma Clean_nonempty: "Clean p \<noteq> []"
  by (simp add: Clean_def Let_def)









lemma Join_nonempty: "\<exists>e \<in> set es. e \<noteq> [] \<Longrightarrow> Join es \<noteq> []"
proof -
  assume "\<exists>e \<in> set es. e \<noteq> []"
  then have "dropWhile (\<lambda>e. e = []) es \<noteq> []" by (simp add: dropWhile_eq_Nil_conv)
  then show ?thesis by (auto simp: Join_def Clean_nonempty split: list.splits)
qed





section \<open>Properties of the file-system calls\<close>










lemma nodeAt_root: "nodeAt fs [] = Some DirNode"
  by (simp add: nodeAt_def)












section \<open>Facts of the example file system\<close>







section \<open>The bookmark operations: claims C1 to C5\<close>

text \<open>
  \<open>main\<close> calls \<open>deleteBookmark\<close> and \<open>jumpBookmark\<close> with a name that is not empty
  only: it tests \<open>flags.Delete != ""\<close> and \<open>flags.Jump != ""\<close>. An empty name after \<open>-d\<close>
  or \<open>-j\<close> leaves the flag as if it were not given, and \<open>main\<close> goes on to
  \<open>createBookmark\<close>.
\<close>

lemma main_empty_name:
  "mainAction False [''-j'', []] = Inr (CreateBookmark [] [])
   \<and> mainAction False [''-d'', []] = Inr (CreateBookmark [] [])"
  by (simp add: mainAction_def parseFlags_def dispatch_def noFlags_def)

lemma dispatch_name_nonempty:
  "(dispatch firstTimeSetup flags args = JumpBookmark nm \<longrightarrow> nm \<noteq> [])
   \<and> (dispatch firstTimeSetup flags args = DeleteBookmark nm \<longrightarrow> nm \<noteq> [])"
  by (auto simp: dispatch_def split: if_splits list.splits)

subsection \<open>Jump\<close>




subsection \<open>Create\<close>





subsection \<open>List\<close>



subsection \<open>Delete\<close>




section \<open>Shell integration: claims C6 to C8\<close>

subsection \<open>The feature line\<close>












subsection \<open>The paths of the generated files\<close>



subsection \<open>The source line in the startup file\<close>




lemma startupFile_supported:
  "shell = ''bash'' \<or> shell = ''zsh'' \<Longrightarrow> startupFile homeDir shell \<noteq> []"
  by (auto simp: startupFile_def Join_nonempty)








section \<open>Agreement with the test tables\<close>

text \<open>
  The path functions on the cases of the tables in Go's \<open>path/filepath\<close> tests that the
  program can meet (Unix paths).
\<close>

lemma Clean_table:
  "Clean ''abc'' = ''abc'' \<and> Clean ''a/b/c'' = ''a/b/c'' \<and> Clean ''.'' = ''.''
   \<and> Clean ''..'' = ''..'' \<and> Clean ''../../abc'' = ''../../abc'' \<and> Clean ''/abc'' = ''/abc''
   \<and> Clean ''/'' = ''/'' \<and> Clean [] = ''.'' \<and> Clean ''abc/def/'' = ''abc/def''
   \<and> Clean ''./'' = ''.'' \<and> Clean ''../../'' = ''../..'' \<and> Clean ''/abc/'' = ''/abc''
   \<and> Clean ''abc//def//ghi'' = ''abc/def/ghi'' \<and> Clean ''///abc'' = ''/abc''
   \<and> Clean ''//abc//'' = ''/abc'' \<and> Clean ''abc/./def'' = ''abc/def''
   \<and> Clean ''/./abc/def'' = ''/abc/def'' \<and> Clean ''abc/.'' = ''abc''
   \<and> Clean ''abc/def/ghi/../jkl'' = ''abc/def/jkl'' \<and> Clean ''abc/def/../ghi/../jkl'' = ''abc/jkl''
   \<and> Clean ''abc/def/..'' = ''abc'' \<and> Clean ''abc/def/../..'' = ''.''
   \<and> Clean ''/abc/def/../..'' = ''/'' \<and> Clean ''abc/def/../../..'' = ''..''
   \<and> Clean ''/abc/def/../../..'' = ''/''
   \<and> Clean ''abc/def/../../../ghi/jkl/../../../mno'' = ''../../mno''
   \<and> Clean ''/../abc'' = ''/abc'' \<and> Clean ''abc/./../def'' = ''def''
   \<and> Clean ''abc//./../def'' = ''def'' \<and> Clean ''abc/../../././../def'' = ''../../def''"
  by code_simp

lemma Join_table:
  "Join [''a'', ''b''] = ''a/b'' \<and> Join [''a'', []] = ''a'' \<and> Join [[], ''b''] = ''b''
   \<and> Join [''/'', ''a''] = ''/a'' \<and> Join [''/'', []] = ''/'' \<and> Join [''a/'', ''b''] = ''a/b''
   \<and> Join [''a/'', []] = ''a'' \<and> Join [[], []] = [] \<and> Join [] = []
   \<and> Join [''a'', ''b'', ''c''] = ''a/b/c'' \<and> Join [''//'', ''a''] = ''/a''
   \<and> Join [''/'', ''a/b''] = ''/a/b''"
  by code_simp

lemma Base_table:
  "Base [] = ''.'' \<and> Base ''.'' = ''.'' \<and> Base ''/.'' = ''.'' \<and> Base ''/'' = ''/''
   \<and> Base ''////'' = ''/'' \<and> Base ''x/'' = ''x'' \<and> Base ''abc'' = ''abc''
   \<and> Base ''abc/def'' = ''def'' \<and> Base ''a/b/.x'' = ''.x'' \<and> Base ''a/b/c.'' = ''c.''
   \<and> Base ''a/b/c.x'' = ''c.x''"
  by code_simp

lemma Dir_table:
  "Dir [] = ''.'' \<and> Dir ''.'' = ''.'' \<and> Dir ''/.'' = ''/'' \<and> Dir ''/'' = ''/''
   \<and> Dir ''/foo'' = ''/'' \<and> Dir ''x/'' = ''x'' \<and> Dir ''abc'' = ''.''
   \<and> Dir ''abc/def'' = ''abc'' \<and> Dir ''a/b/.x'' = ''a/b'' \<and> Dir ''a/b/c.'' = ''a/b''
   \<and> Dir ''a/b/c.x'' = ''a/b'' \<and> Dir ''////'' = ''/''"
  by code_simp

text \<open>The flag parser on the table of \<open>TestParseFlags\<close>, and on a few more command lines.\<close>

lemma parseFlags_table:
  "parseFlags [''-h''] = Inr (noFlags\<lparr>Help := True\<rparr>, [])
   \<and> parseFlags [''--help''] = Inr (noFlags\<lparr>Help := True\<rparr>, [])
   \<and> parseFlags [''-v''] = Inr (noFlags\<lparr>Version := True\<rparr>, [])
   \<and> parseFlags [''--version''] = Inr (noFlags\<lparr>Version := True\<rparr>, [])
   \<and> parseFlags [''-l''] = Inr (noFlags\<lparr>List := True\<rparr>, [])
   \<and> parseFlags [''-d'', ''testmark''] = Inr (noFlags\<lparr>Delete := ''testmark''\<rparr>, [])
   \<and> parseFlags [''-j'', ''testmark''] = Inr (noFlags\<lparr>Jump := ''testmark''\<rparr>, [])
   \<and> parseFlags [''--config''] = Inr (noFlags\<lparr>Config := True\<rparr>, [])
   \<and> parseFlags [''--autocomplete''] = Inr (noFlags\<lparr>Autocomplete := True\<rparr>, [])
   \<and> parseFlags [''--alias''] = Inr (noFlags\<lparr>Alias := True\<rparr>, [])
   \<and> parseFlags [''mybookmark''] = Inr (noFlags, [''mybookmark''])
   \<and> parseFlags [''my'', ''bookmark'', ''name'']
       = Inr (noFlags, [''my'', ''bookmark'', ''name''])"
  by code_simp

lemma parseFlags_more:
  "parseFlags [''--configure''] = Inr (noFlags, [''--configure''])
   \<and> parseFlags [''-''] = Inr (noFlags, [''-''])
   \<and> parseFlags [''--''] = Inr (noFlags, [''--''])
   \<and> parseFlags [''-lvh'', ''x'']
       = Inr (noFlags\<lparr>List := True, Help := True, Version := True\<rparr>, [''x''])"
  by code_simp

text \<open>
  The functions of the shell integration on the tables of \<open>TestGetRCFilePath\<close>,
  \<open>TestGetEnabledFeatures\<close> and \<open>TestIsSourceLinePresent\<close>.
\<close>

lemma getRCFilePath_table:
  "getRCFilePath ''/home/u'' ''bash'' = ''/home/u/.mark_bash_rc''
   \<and> getRCFilePath ''/home/u'' ''zsh'' = ''/home/u/.mark_zsh_rc''
   \<and> getRCFilePath ''/home/u'' ''fish'' = ''/home/u/.config/fish/conf.d/mark.fish''
   \<and> getRCFilePath ''/home/u'' ''unknown'' = []"
  by code_simp

lemma getEnabledFeatures_table:
  "getEnabledFeatures
      [''/home/u/.mark_bash_rc'' \<mapsto> [''#!/bin/bash'', ''# mark shell configuration'',
         ''# Generated by mark'', ''# Features: aliases completions'', []]]
      ''/home/u'' ''bash'' = (True, True)
   \<and> getEnabledFeatures
      [''/home/u/.mark_bash_rc'' \<mapsto> [''#!/bin/bash'', ''# mark shell configuration'',
         ''# Generated by mark'', ''# Features: aliases'', []]]
      ''/home/u'' ''bash'' = (True, False)
   \<and> getEnabledFeatures Map.empty ''/home/u'' ''bash'' = (False, False)"
proof -
  have p: "getRCFilePath ''/home/u'' ''bash'' = ''/home/u/.mark_bash_rc''" by code_simp
  have 1: "parseFeatures [''#!/bin/bash'', ''# mark shell configuration'',
         ''# Generated by mark'', ''# Features: aliases completions'', []] = (True, True)"
    by code_simp
  have 2: "parseFeatures [''#!/bin/bash'', ''# mark shell configuration'',
         ''# Generated by mark'', ''# Features: aliases'', []] = (True, False)"
    by code_simp
  from p 1 2 show ?thesis by (simp add: getEnabledFeatures_def)
qed

lemma isSourceLinePresent_table:
  "isSourceLinePresent (\<lambda>l. False)
      [''with_source'' \<mapsto> [''# some content'', ''# mark shell integration'',
         ''[ -f ~/.mark_bash_rc ] && source ~/.mark_bash_rc'', []]] ''with_source''
   \<and> \<not> isSourceLinePresent (\<lambda>l. False)
      [''without_source'' \<mapsto> [''# some other content'', ''export PATH=$PATH:/usr/bin'', []]]
      ''without_source''
   \<and> \<not> isSourceLinePresent (\<lambda>l. False) Map.empty ''nonexistent''"
proof -
  have 1: "list_ex (\<lambda>l. sublist ''.mark_bash_rc'' l \<or> sublist ''.mark_zsh_rc'' l \<or> False)
      [''# some content'', ''# mark shell integration'',
         ''[ -f ~/.mark_bash_rc ] && source ~/.mark_bash_rc'', []]" by code_simp
  have 2: "\<not> list_ex (\<lambda>l. sublist ''.mark_bash_rc'' l \<or> sublist ''.mark_zsh_rc'' l \<or> False)
      [''# some other content'', ''export PATH=$PATH:/usr/bin'', []]" by code_simp
  from 1 2 show ?thesis by (simp add: isSourceLinePresent_def)
qed

end
